theory Spec2Isabelle
  imports Main "HOL-Library.AList"
begin

section \<open>Exceptions\<close>

text \<open>
  The exceptions that the modelled routines of \<open>scapy/sendrecv.py\<close> raise, catch or let
  through. \<open>Exception\<close> stands for any other exception class; its string is the message.
\<close>

datatype exn =
    Scapy_Exception string
  | AttributeError string
  | KeyboardInterrupt
  | SystemExit
  | Exception string

section \<open>The send engine: \<open>__gen_send\<close>\<close>

text \<open>
  The packet source \<open>x\<close> is a list (a \<open>SetGen\<close> over a list can be traversed again and
  again). The socket is a parameter: \<open>s n p\<close> is the exception that \<open>s.send(p)\<close> raises when
  \<open>n\<close> packets have been sent before, if it raises. Sleeping (\<open>realtime\<close>, \<open>inter\<close>) and the
  terminal output change nothing that is modelled here. The inner loop \<open>for p in x\<close>
  carries the counter \<open>n\<close> and the packets sent so far.
\<close>

fun gen_send_pass ::
  "(nat \<Rightarrow> 'p \<Rightarrow> exn option) \<Rightarrow> 'p list \<Rightarrow> nat \<Rightarrow> 'p list \<Rightarrow> exn option \<times> nat \<times> 'p list" where
  "gen_send_pass s [] n out = (None, n, out)"
| "gen_send_pass s (p # ps) n out =
     (case s n p of
        Some e \<Rightarrow> (Some e, n, out)
      | None \<Rightarrow> gen_send_pass s ps (n + 1) (out @ [p]))"

text \<open>
  \<open>while loop: ...; if loop < 0: loop += 1\<close>. A positive \<open>loop\<close> never changes, so the loop
  is a partial function: no result is the value None.
\<close>

partial_function (option) gen_send_loop ::
  "(nat \<Rightarrow> 'p \<Rightarrow> exn option) \<Rightarrow> 'p list \<Rightarrow> int \<Rightarrow> nat \<Rightarrow> 'p list
     \<Rightarrow> (exn option \<times> nat \<times> 'p list) option" where
  "gen_send_loop s x loop n out =
     (if loop \<noteq> 0 then
        (case gen_send_pass s x n out of
           (Some e, n1, out1) \<Rightarrow> Some (Some e, n1, out1)
         | (None, n1, out1) \<Rightarrow>
             gen_send_loop s x (if loop < 0 then loop + 1 else loop) n1 out1)
      else Some (None, n, out))"

declare gen_send_loop.simps [code]

text \<open>
  The whole function. Its result is the exception that leaves it or the returned value
  (\<open>sent_packets\<close>, which is None without \<open>return_packets\<close>), together with the packets
  that the socket has sent, in order. \<open>KeyboardInterrupt\<close> ends the loop and is swallowed.
\<close>

definition gen_send ::
  "(nat \<Rightarrow> 'p \<Rightarrow> exn option) \<Rightarrow> 'p list \<Rightarrow> int \<Rightarrow> int option \<Rightarrow> bool
     \<Rightarrow> ((exn + 'p list option) \<times> 'p list) option" where
  "gen_send s x loop count return_packets =
     (let loop1 = (case count of
                     Some c \<Rightarrow> - c
                   | None \<Rightarrow> (if loop = 0 then - 1 else loop))
      in case gen_send_loop s x loop1 0 [] of
           None \<Rightarrow> None
         | Some (e, n, out) \<Rightarrow>
             (let sent_packets = (if return_packets then Some out else None)
              in case e of
                   None \<Rightarrow> Some (Inr sent_packets, out)
                 | Some KeyboardInterrupt \<Rightarrow> Some (Inr sent_packets, out)
                 | Some e1 \<Rightarrow> Some (Inl e1, out)))"

section \<open>The replay-tool output parser: \<open>_parse_tcpreplay_result\<close>\<close>

text \<open>
  The string methods that the parser uses, on ASCII text: \<open>lower\<close>, \<open>strip\<close>,
  \<open>split("\n")\<close>, \<open>startswith\<close> and \<open>" ".join\<close>.
\<close>

definition lower :: "string \<Rightarrow> string" where
  "lower s =
     map (\<lambda>c. case map_of (zip ''ABCDEFGHIJKLMNOPQRSTUVWXYZ'' ''abcdefghijklmnopqrstuvwxyz'') c of
                 None \<Rightarrow> c
               | Some d \<Rightarrow> d) s"

definition isspace :: "char \<Rightarrow> bool" where
  "isspace c = ((of_char c :: nat) \<in> {9, 10, 11, 12, 13, 28, 29, 30, 31, 32})"

definition strip :: "string \<Rightarrow> string" where
  "strip s = rev (dropWhile isspace (rev (dropWhile isspace s)))"

fun split_on :: "char \<Rightarrow> string \<Rightarrow> string list" where
  "split_on sep [] = [[]]"
| "split_on sep (c # cs) =
     (if c = sep then [] # split_on sep cs
      else (case split_on sep cs of
              [] \<Rightarrow> [[c]]
            | w # ws \<Rightarrow> (c # w) # ws))"

definition startswith :: "string \<Rightarrow> string \<Rightarrow> bool" where
  "startswith line elt = (take (length elt) line = elt)"

fun join_with :: "string \<Rightarrow> string list \<Rightarrow> string" where
  "join_with sep [] = []"
| "join_with sep [w] = w"
| "join_with sep (w # ws) = w @ sep @ join_with sep ws"

text \<open>
  The two tables of the function, in the order in which the dicts are written.
\<close>

datatype num_type = TInt | TFloat

definition elements :: "(string \<times> num_type list) list" where
  "elements =
     [(''actual'', [TInt, TInt, TFloat]),
      (''rated'', [TFloat, TFloat, TFloat]),
      (''flows'', [TInt, TFloat, TInt, TInt]),
      (''attempted'', [TInt]),
      (''successful'', [TInt]),
      (''failed'', [TInt]),
      (''truncated'', [TInt]),
      (''retried packets (eno'', [TInt]),
      (''retried packets (eag'', [TInt])]"

definition multi_names :: "(string \<times> string list) list" where
  "multi_names =
     [(''actual'', [''packets'', ''bytes'', ''time'']),
      (''rated'', [''bps'', ''mbps'', ''pps'']),
      (''flows'', [''flows'', ''fps'', ''flow_packets'', ''non_flow'']),
      (''retried packets (eno'', [''retried_enobufs'']),
      (''retried packets (eag'', [''retried_eagain''])]"

text \<open>
  The values of the result map: a number read from the output (of a type \<open>'n\<close> that the
  conversions produce), the command string, and the list of warnings.
\<close>

datatype 'n val = Number 'n | Str string | StrList "string list"

text \<open>
  What the parser calls outside this file: \<open>plain_str\<close> of \<open>scapy.compat\<close>, which turns
  bytes into a string; \<open>re.search\<close> on the regular expression built for a list of types,
  which gives the groups of a match or \<open>None\<close>; and the conversions \<open>int(...)\<close> and
  \<open>float(...)\<close>. Each of the calls that can raise gives its exception as a value.
\<close>

record 'n parse_env =
  plain_str :: "string \<Rightarrow> exn + string"
  re_search :: "num_type list \<Rightarrow> string \<Rightarrow> string list option"
  convert :: "num_type \<Rightarrow> string \<Rightarrow> exn + 'n"

text \<open>
  \<open>for i, typ in enumerate(_types)\<close>: \<open>names\<close> is \<open>multi.get(elt, [elt])\<close>; indexing it and
  \<open>matches.group(i + 1)\<close> raise \<open>IndexError\<close> out of range.
\<close>

fun assign_groups ::
  "'n parse_env \<Rightarrow> string list \<Rightarrow> string list option \<Rightarrow> nat \<Rightarrow> num_type list \<Rightarrow> (string \<rightharpoonup> 'n val)
     \<Rightarrow> exn + (string \<rightharpoonup> 'n val)" where
  "assign_groups env names matches i [] results = Inr results"
| "assign_groups env names matches i (t # ts) results =
     (if length names \<le> i then Inl (Exception ''IndexError'')
      else
        (case matches of
           None \<Rightarrow> assign_groups env names matches (i + 1) ts results
         | Some groups \<Rightarrow>
             (if length groups \<le> i then Inl (Exception ''IndexError'')
              else
                (case convert env t (groups ! i) of
                   Inl e \<Rightarrow> Inl e
                 | Inr v \<Rightarrow>
                     assign_groups env names matches (i + 1) ts
                       (results(names ! i \<mapsto> Number v))))))"

text \<open>\<open>for elt, _types in elements.items()\<close>, for one stripped line.\<close>

fun parse_line ::
  "'n parse_env \<Rightarrow> string \<Rightarrow> (string \<times> num_type list) list \<Rightarrow> (string \<rightharpoonup> 'n val)
     \<Rightarrow> exn + (string \<rightharpoonup> 'n val)" where
  "parse_line env line [] results = Inr results"
| "parse_line env line ((elt, types) # elts) results =
     (if startswith line elt then
        (case assign_groups env
                (case map_of multi_names elt of None \<Rightarrow> [elt] | Some names \<Rightarrow> names)
                (re_search env types line) 0 types results of
           Inl e \<Rightarrow> Inl e
         | Inr results1 \<Rightarrow> parse_line env line elts results1)
      else parse_line env line elts results)"

text \<open>\<open>for line in stdout.split("\n")\<close>\<close>

fun parse_lines ::
  "'n parse_env \<Rightarrow> string list \<Rightarrow> (string \<rightharpoonup> 'n val) \<Rightarrow> exn + (string \<rightharpoonup> 'n val)" where
  "parse_lines env [] results = Inr results"
| "parse_lines env (line # lines) results =
     (case parse_line env (strip line) elements results of
        Inl e \<Rightarrow> Inl e
      | Inr results1 \<Rightarrow> parse_lines env lines results1)"

text \<open>The body of the \<open>try\<close> statement.\<close>

definition parse_body ::
  "'n parse_env \<Rightarrow> string \<Rightarrow> string \<Rightarrow> string list \<Rightarrow> exn + (string \<rightharpoonup> 'n val)" where
  "parse_body env stdout_b stderr_b argv =
     (case plain_str env stdout_b of
        Inl e \<Rightarrow> Inl e
      | Inr out \<Rightarrow>
          (case plain_str env stderr_b of
             Inl e \<Rightarrow> Inl e
           | Inr err \<Rightarrow>
               (let stdout = lower out;
                    stderr = split_on (CHR 0x0A) (strip err)
                in case parse_lines env (split_on (CHR 0x0A) stdout) Map.empty of
                     Inl e \<Rightarrow> Inl e
                   | Inr results \<Rightarrow>
                       Inr (results(''command'' \<mapsto> Str (join_with '' '' argv),
                                    ''warnings'' \<mapsto> StrList (butlast stderr))))))"

text \<open>
  The function with its handler: \<open>except Exception\<close> does not catch \<open>KeyboardInterrupt\<close> or
  \<open>SystemExit\<close>. The result is the exception raised or the map returned, with the lines
  written by \<open>log_runtime.error\<close>. \<open>interactive\<close> is \<open>conf.interactive\<close>.
\<close>

definition parse_tcpreplay_result ::
  "bool \<Rightarrow> 'n parse_env \<Rightarrow> string \<Rightarrow> string \<Rightarrow> string list
     \<Rightarrow> (exn + (string \<rightharpoonup> 'n val)) \<times> string list" where
  "parse_tcpreplay_result interactive env stdout_b stderr_b argv =
     (case parse_body env stdout_b stderr_b argv of
        Inr results \<Rightarrow> (Inr results, [])
      | Inl KeyboardInterrupt \<Rightarrow> (Inl KeyboardInterrupt, [])
      | Inl SystemExit \<Rightarrow> (Inl SystemExit, [])
      | Inl parse_exception \<Rightarrow>
          (if \<not> interactive then (Inl parse_exception, [])
           else (Inr Map.empty, [''Error parsing output''])))"

section \<open>The flood controller: \<open>_FloodGenerator\<close>\<close>

text \<open>
  \<open>__iter__\<close> is a generator; the model gives the list of the packets that it yields to a
  consumer that takes them all, and the value of \<open>iterlen\<close> when the generator is
  exhausted. \<open>stopevent n\<close> is the answer of \<open>self.stopevent.is_set()\<close> when \<open>n\<close> packets have
  been yielded. \<open>pkts\<close> is the attribute \<open>tobesent\<close>, a list. The inner loop
  \<open>for p in self.tobesent\<close> returns whether the stop event ended it, the counter \<open>j\<close> and
  the packets yielded so far.
\<close>

fun flood_cycle :: "(nat \<Rightarrow> bool) \<Rightarrow> 'p list \<Rightarrow> nat \<Rightarrow> 'p list \<Rightarrow> bool \<times> nat \<times> 'p list" where
  "flood_cycle stopevent [] j out = (False, j, out)"
| "flood_cycle stopevent (p # ps) j out =
     (if stopevent (length out) then (True, j, out)
      else flood_cycle stopevent ps (j + 1) (out @ [p]))"

text \<open>
  \<open>while True\<close> with the counter \<open>i\<close>. \<open>self.maxretries and i >= self.maxretries\<close> is false
  for \<open>None\<close> and for 0, and then only the stop event ends the generator: the loop is a
  partial function.
\<close>

partial_function (option) flood_iter ::
  "int option \<Rightarrow> (nat \<Rightarrow> bool) \<Rightarrow> 'p list \<Rightarrow> int \<Rightarrow> nat \<Rightarrow> 'p list \<Rightarrow> ('p list \<times> nat) option" where
  "flood_iter maxretries stopevent pkts i iterlen out =
     (if (case maxretries of None \<Rightarrow> False | Some m \<Rightarrow> m \<noteq> 0 \<and> m \<le> i + 1)
      then Some (out, iterlen)
      else (case flood_cycle stopevent pkts 0 out of
              (stopped, j, out1) \<Rightarrow>
                (if stopped then Some (out1, iterlen)
                 else flood_iter maxretries stopevent pkts (i + 1)
                        (if iterlen = 0 then j else iterlen) out1)))"

declare flood_iter.simps [code]

text \<open>A fresh generator (\<open>iterlen = 0\<close>) iterated from the start (\<open>i = 0\<close>).\<close>

definition FloodGenerator ::
  "'p list \<Rightarrow> int option \<Rightarrow> (nat \<Rightarrow> bool) \<Rightarrow> ('p list \<times> nat) option" where
  "FloodGenerator pkts maxretries stopevent = flood_iter maxretries stopevent pkts 0 0 []"

section \<open>The bridge forwarder: \<open>prn_send\<close>\<close>

text \<open>
  What a transform function returns: a bool, \<open>None\<close>, or a packet; it may raise instead.
  \<open>prn_send\<close> acts on the peer socket and on the log only, so its model is the list of
  these actions: \<open>Send s v\<close> is the call \<open>s.send(v)\<close>, where \<open>v\<close> is a packet or Python's
  \<open>None\<close>, and \<open>Warning\<close> is a call of \<open>log_runtime.warning\<close> with the start of its message.
  Labels are strings; \<open>sniffed_on\<close> is a label or \<open>None\<close>. \<open>send_raises s v\<close> says whether
  \<open>s.send(v)\<close> raises.
\<close>

datatype 'p returned = RBool bool | RNone | RPacket 'p

datatype ('s, 'p) action = Send 's "'p option" | Warning string

definition prn_send ::
  "(string \<rightharpoonup> 's) \<Rightarrow> (string \<rightharpoonup> ('p \<Rightarrow> exn + 'p returned)) \<Rightarrow> ('s \<Rightarrow> 'p option \<Rightarrow> bool)
     \<Rightarrow> 'p \<Rightarrow> string option \<Rightarrow> ('s, 'p) action list" where
  "prn_send peers xfrms send_raises pkt sniffed_on =
     (case peers (case sniffed_on of None \<Rightarrow> [] | Some l \<Rightarrow> l) of
        None \<Rightarrow> []
      | Some sendsock \<Rightarrow>
          (let forward = (\<lambda>newpkt.
                 Send sendsock newpkt #
                   (if send_raises sendsock newpkt then [Warning ''Cannot forward packet'']
                    else []))
           in case (case sniffed_on of None \<Rightarrow> None | Some l \<Rightarrow> xfrms l) of
                None \<Rightarrow> forward (Some pkt)
              | Some xfrm \<Rightarrow>
                  (case xfrm pkt of
                     Inl e \<Rightarrow> [Warning ''Exception in transformation function'']
                   | Inr (RBool b) \<Rightarrow> (if \<not> b then [] else forward (Some pkt))
                   | Inr RNone \<Rightarrow> forward None
                   | Inr (RPacket q) \<Rightarrow> forward (Some q))))"



section \<open>AsyncSniffer: the stop protocol\<close>

text \<open>
  \<open>AsyncSniffer.__init__\<close> installs \<open>stop_cb = lambda: None\<close>; \<open>_run\<close> replaces it by one
  of two closures: with a blocking select it writes a sentinel into the control pipe
  (when the sniffer runs) and clears \<open>continue_sniff\<close>; with a non-blocking select it only
  clears \<open>continue_sniff\<close>.
\<close>

datatype stop_callback = Noop | PipeStop | FlagStop

text \<open>
  The attributes of an \<open>AsyncSniffer\<close> object. \<open>continue_sniff\<close> is created by \<open>_run\<close>
  only, so it is optional: reading it before it exists raises \<open>AttributeError\<close>.
  \<open>count\<close> is created by \<open>_run\<close> too, which sets it to 0 before anything reads it.
  \<open>thread\<close> is the identifier of the worker thread, if one was set up. \<open>control_pipe\<close>
  counts the sentinels written into the control pipe.
\<close>

record 'p sniffer =
  running :: bool
  thread :: "nat option"
  results :: "'p list option"
  exception :: "exn option"
  stop_cb :: stop_callback
  continue_sniff :: "bool option"
  count :: nat
  control_pipe :: nat

definition sniffer_init :: "'p sniffer" where
  "sniffer_init =
     \<lparr> running = False, thread = None, results = None, exception = None,
       stop_cb = Noop, continue_sniff = None, count = 0, control_pipe = 0 \<rparr>"

fun call_stop_cb :: "'p sniffer \<Rightarrow> 'p sniffer" where
  "call_stop_cb s =
     (case stop_cb s of
        Noop \<Rightarrow> s
      | PipeStop \<Rightarrow>
          (if running s then s\<lparr>control_pipe := control_pipe s + 1\<rparr> else s)
            \<lparr>continue_sniff := Some False\<rparr>
      | FlagStop \<Rightarrow> s\<lparr>continue_sniff := Some False\<rparr>)"

text \<open>
  \<open>join\<close> waits for the worker thread, when there is one; \<open>worker\<close> is what the worker
  does to the object until it ends. Then a captured exception is raised again.
\<close>

definition join :: "('p sniffer \<Rightarrow> 'p sniffer) \<Rightarrow> 'p sniffer \<Rightarrow> (exn + unit) \<times> 'p sniffer" where
  "join worker s =
     (let s1 = (if thread s \<noteq> None then worker s else s)
      in case exception s1 of
           Some e \<Rightarrow> (Inl e, s1)
         | None \<Rightarrow> (Inr (), s1))"

definition stop ::
  "('p sniffer \<Rightarrow> 'p sniffer) \<Rightarrow> bool \<Rightarrow> 'p sniffer \<Rightarrow> (exn + 'p list option) \<times> 'p sniffer" where
  "stop worker do_join s =
     (if running s then
        (let s1 = call_stop_cb s
         in case continue_sniff s1 of
              None \<Rightarrow> (Inl (AttributeError ''continue_sniff''), s1)
            | Some True \<Rightarrow>
                (Inl (Scapy_Exception ''Unsupported (offline or unsupported socket)''), s1)
            | Some False \<Rightarrow>
                (if do_join then
                   (case join worker s1 of
                      (Inl e, s2) \<Rightarrow> (Inl e, s2)
                    | (Inr _, s2) \<Rightarrow> (Inr (results s2), s2))
                 else (Inr None, s1)))
      else (Inl (Scapy_Exception ''Not running ! (check .running attr)''), s))"

section \<open>AsyncSniffer: the main loop of \<open>_run\<close>\<close>

text \<open>
  A sniffed packet is a packet with its \<open>sniffed_on\<close> label, a string or \<open>None\<close>. The
  sockets of \<open>sniff_sockets\<close> are the control pipe, when \<open>_run\<close> installs one, and the
  sockets assembled from the arguments.
\<close>

type_synonym 'p sniffed = "'p \<times> string option"

datatype 's sock = ControlSocket | Socket 's

text \<open>
  The arguments of \<open>_run\<close> that its main loop reads. A callback that is not given is
  \<open>None\<close>. \<open>arg_prn\<close> returns the text to print, if any. \<open>debug_dissector\<close> is
  \<open>conf.debug_dissector\<close>. The callbacks are taken to return: an exception of theirs would
  be handled like one of \<open>session.recv\<close>.
\<close>

record 'p sniff_args =
  arg_count :: int
  arg_store :: bool
  arg_prn :: "('p sniffed \<Rightarrow> string option) option"
  arg_lfilter :: "('p \<Rightarrow> bool) option"
  arg_stop_filter :: "('p \<Rightarrow> bool) option"
  arg_chainCC :: bool
  debug_dissector :: int

text \<open>
  What the loop meets outside the sniffer. Iterating \<open>session.recv(s)\<close> yields some
  packets and then ends, is left by \<open>EOFError\<close>, or is left by another exception. One turn
  of the \<open>while\<close> loop finds the deadline passed (\<open>remain <= 0\<close>), is interrupted from the
  keyboard, or gets from \<open>select\<close> a list of ready sockets, each given here with what
  \<open>session.recv\<close> does on it in this turn.
\<close>

datatype ending = Exhausted | RaisesEOF | RaisesError string

datatype ('s, 'p) tick =
    Expired
  | Interrupt
  | Ready "('s sock \<times> 'p list \<times> ending) list"

text \<open>
  The sniffer object together with the local variables of \<open>_run\<close>; \<open>prn_calls\<close> are the
  packets passed to \<open>prn\<close>, \<open>printed\<close> the results of \<open>prn\<close> that were printed, \<open>warnings\<close>
  the number of calls of \<open>warning\<close>.
\<close>

record ('s, 'p) sniff_frame = "'p sniffed sniffer" +
  lst :: "'p sniffed list"
  sniff_sockets :: "('s sock \<times> string) list"
  dead_sockets :: "'s sock list"
  prn_calls :: "'p sniffed list"
  printed :: "string list"
  warnings :: nat

text \<open>
  \<open>for p in packets\<close>, for the packets of one socket with label \<open>label\<close>. The boolean of
  the result says that the loop was left by \<open>break\<close>.
\<close>

fun sniff_packets ::
  "'p sniff_args \<Rightarrow> string option \<Rightarrow> 'p list \<Rightarrow> ('s, 'p) sniff_frame
     \<Rightarrow> bool \<times> ('s, 'p) sniff_frame" where
  "sniff_packets args label [] st = (False, st)"
| "sniff_packets args label (p # ps) st =
     (if (case arg_lfilter args of None \<Rightarrow> False | Some lfilter \<Rightarrow> \<not> lfilter p)
      then sniff_packets args label ps st
      else
        (let st1 = st\<lparr>count := count st + 1\<rparr>;
             st2 = (if arg_store args then st1\<lparr>lst := lst st1 @ [(p, label)]\<rparr> else st1);
             st3 = (case arg_prn args of
                      None \<Rightarrow> st2
                    | Some prn \<Rightarrow>
                        (case prn (p, label) of
                           None \<Rightarrow> st2\<lparr>prn_calls := prn_calls st2 @ [(p, label)]\<rparr>
                         | Some result \<Rightarrow>
                             st2\<lparr>prn_calls := prn_calls st2 @ [(p, label)],
                                 printed := printed st2 @ [result]\<rparr>))
         in if (case arg_stop_filter args of None \<Rightarrow> False | Some stop_filter \<Rightarrow> stop_filter p)
               \<or> (0 < arg_count args \<and> arg_count args \<le> int (count st3))
            then (True, st3\<lparr>continue_sniff := Some False\<rparr>)
            else sniff_packets args label ps st3))"

text \<open>
  \<open>for s in sockets\<close>, for the ready sockets of one \<open>select\<close> call. The control pipe ends
  the loop. The \<open>break\<close> of the packet loop leaves the packet loop only: the \<open>try\<close>
  statement ends without an exception and the socket loop goes on with the next ready
  socket. An exception other than \<open>EOFError\<close> is raised again when \<open>conf.debug_dissector\<close>
  is 2 or more.
\<close>

fun sniff_ready ::
  "'p sniff_args \<Rightarrow> ('s sock \<times> 'p list \<times> ending) list \<Rightarrow> ('s, 'p) sniff_frame
     \<Rightarrow> exn option \<times> ('s, 'p) sniff_frame" where
  "sniff_ready args [] st = (None, st)"
| "sniff_ready args ((s, packets, e) # sockets) st =
     (if s = ControlSocket then (None, st)
      else
        (case sniff_packets args (map_of (sniff_sockets st) s) packets st of
           (True, st1) \<Rightarrow> sniff_ready args sockets st1
         | (False, st1) \<Rightarrow>
             (case e of
                Exhausted \<Rightarrow> sniff_ready args sockets st1
              | RaisesEOF \<Rightarrow>
                  sniff_ready args sockets (st1\<lparr>dead_sockets := dead_sockets st1 @ [s]\<rparr>)
              | RaisesError msg \<Rightarrow>
                  (let st2 = st1\<lparr>dead_sockets := dead_sockets st1 @ [s],
                                 warnings := warnings st1 + 1\<rparr>
                   in if 2 \<le> debug_dissector args then (Some (Exception msg), st2)
                      else sniff_ready args sockets st2))))"

text \<open>
  \<open>for s in dead_sockets: del sniff_sockets[s]\<close>, and the control pipe goes too when it
  is the only socket left.
\<close>

fun remove_dead :: "'s sock list \<Rightarrow> ('s sock \<times> string) list \<Rightarrow> ('s sock \<times> string) list" where
  "remove_dead [] socks = socks"
| "remove_dead (s # dead) socks =
     (let socks1 = filter (\<lambda>(k, l). k \<noteq> s) socks
      in remove_dead dead
           (if length socks1 = 1 \<and> ControlSocket \<in> fst ` set socks1
            then filter (\<lambda>(k, l). k \<noteq> ControlSocket) socks1 else socks1))"

text \<open>
  \<open>while sniff_sockets and self.continue_sniff\<close>, over the turns that the environment
  provides. When they are used up and the loop would go on, \<open>select\<close> never returns: there
  is no result. Otherwise the result is the exception that left the loop, if any.
\<close>

fun sniff_loop ::
  "'p sniff_args \<Rightarrow> ('s, 'p) tick list \<Rightarrow> ('s, 'p) sniff_frame
     \<Rightarrow> (exn option \<times> ('s, 'p) sniff_frame) option" where
  "sniff_loop args [] st =
     (if sniff_sockets st \<noteq> [] \<and> continue_sniff st = Some True then None
      else Some (None, st))"
| "sniff_loop args (t # ts) st =
     (if sniff_sockets st \<noteq> [] \<and> continue_sniff st = Some True then
        (case t of
           Expired \<Rightarrow> Some (None, st)
         | Interrupt \<Rightarrow> Some (Some KeyboardInterrupt, st)
         | Ready sockets \<Rightarrow>
             (case sniff_ready args sockets (st\<lparr>dead_sockets := []\<rparr>) of
                (Some e, st1) \<Rightarrow> Some (Some e, st1)
              | (None, st1) \<Rightarrow>
                  sniff_loop args ts
                    (st1\<lparr>sniff_sockets := remove_dead (dead_sockets st1) (sniff_sockets st1)\<rparr>)))
      else Some (None, st))"

text \<open>
  \<open>_run\<close> from the assembled sockets \<open>socks\<close> on (a dict that is not empty). With a blocking
  \<open>select\<close> the control pipe joins the sockets. \<open>KeyboardInterrupt\<close> is raised again only
  with \<open>chainCC\<close>; any exception that leaves \<open>_run\<close> leaves \<open>running\<close> set and \<open>results\<close>
  as it was. The started callback acts outside the sniffer and is left out here; in the
  coordinator it is the sender, which \<open>sndrcv_pass\<close> runs.
\<close>

definition sniff_run ::
  "'p sniff_args \<Rightarrow> ('s \<times> string) list \<Rightarrow> bool \<Rightarrow> ('s, 'p) tick list \<Rightarrow> 'p sniffed sniffer
     \<Rightarrow> (exn option \<times> ('s, 'p) sniff_frame) option" where
  "sniff_run args socks nonblocking_socket ticks self =
     (let st0 = sniffer.extend (self\<lparr>running := True, count := 0\<rparr>)
                  (sniff_frame.fields []
                     (map (\<lambda>(s, l). (Socket s, l)) socks
                        @ (if nonblocking_socket then [] else [(ControlSocket, ''control_socket'')]))
                     [] [] [] 0);
          st1 = st0\<lparr>stop_cb := (if nonblocking_socket then FlagStop else PipeStop),
                    continue_sniff := Some True\<rparr>
      in case sniff_loop args ticks st1 of
           None \<Rightarrow> None
         | Some (Some KeyboardInterrupt, st2) \<Rightarrow>
             (if arg_chainCC args then Some (Some KeyboardInterrupt, st2)
              else Some (None, st2\<lparr>running := False, results := Some (lst st2)\<rparr>))
         | Some (Some e, st2) \<Rightarrow> Some (Some e, st2)
         | Some (None, st2) \<Rightarrow> Some (None, st2\<lparr>running := False, results := Some (lst st2)\<rparr>))"

section \<open>SndRcvHandler: the match coordinator\<close>

subsection \<open>The handler object\<close>

text \<open>
  Stimuli and replies are both \<open>Packet\<close> objects, of type \<open>'p\<close>; two values of \<open>'p\<close> are
  equal when they are the same object. The packet layer is outside this file: its
  \<open>hashret\<close> and \<open>answers\<close> methods are parameters of the model
  (\<open>answers r s\<close> is \<open>r.answers(s)\<close>).

  \<open>hsent\<close> is a Python dict from fingerprints to lists of stimuli. A dict keeps its keys
  in insertion order and \<open>itertools.chain(*self.hsent.values())\<close> reads that order, so the
  dict is an association list with distinct keys.

  The fields follow the attributes set by \<open>__init__\<close>. Some stand for objects that live
  outside the handler: \<open>answered\<close> is the set of stimuli that carry the \<open>_answered\<close>
  attribute; \<open>flood\<close> is \<open>self._flood.iterlen\<close> when a flood generator was given;
  \<open>sniffer_running\<close> and \<open>sniffer_stops\<close> are the \<open>running\<close> flag of \<open>self.sniffer\<close> and the
  number of \<open>stop\<close> calls the handler has made on it; \<open>pks\<close> is the sending socket: the
  list of \<open>send(p)\<close> calls it has received, each with the outstanding table as it was
  when the call was made. Writes to the terminal and to the \<open>debug\<close> class are left out.
\<close>

record ('k, 'p) handler =
  multi :: bool
  threaded :: bool
  chainEX :: bool
  chainCC :: bool
  timeout :: "int option"
  flood :: "nat option"
  tobesent :: "'p list"
  hsent :: "('k \<times> 'p list) list"
  ans :: "('p \<times> 'p) list"
  nbrecv :: nat
  notans :: nat
  noans :: nat
  send_done :: bool
  answered :: "'p set"
  sniffer_running :: bool
  sniffer_stops :: nat
  pks :: "('p \<times> ('k \<times> 'p list) list) list"



definition stop_sniffer_if_done :: "('k, 'p) handler \<Rightarrow> ('k, 'p) handler" where
  "stop_sniffer_if_done st =
     (if send_done st \<and> notans st \<le> noans st \<and> \<not> multi st then
        (if sniffer_running st then st\<lparr>sniffer_stops := sniffer_stops st + 1\<rparr> else st)
      else st)"

subsection \<open>The reply dispatcher: \<open>_process_packet\<close>\<close>

text \<open>
  \<open>for i, sentpkt in enumerate(hlst): if r.answers(sentpkt): ...; break\<close> finds the first
  stimulus of the bucket that the reply answers, with its index.
\<close>

fun first_answer :: "('p \<Rightarrow> bool) \<Rightarrow> 'p list \<Rightarrow> (nat \<times> 'p) option" where
  "first_answer t [] = None"
| "first_answer t (sentpkt # hlst) =
     (if t sentpkt then Some (0, sentpkt)
      else map_option (\<lambda>(i, s). (Suc i, s)) (first_answer t hlst))"

text \<open>The body of \<open>if r.answers(sentpkt)\<close>, for the stimulus at index \<open>i\<close> of bucket \<open>h\<close>.\<close>

definition record_match ::
  "'k \<Rightarrow> 'p list \<Rightarrow> nat \<Rightarrow> 'p \<Rightarrow> 'p \<Rightarrow> ('k, 'p) handler \<Rightarrow> ('k, 'p) handler" where
  "record_match h hlst i sentpkt r st =
     (let st1 = st\<lparr>ans := ans st @ [(sentpkt, r)]\<rparr>
      in if \<not> multi st1 then
           st1\<lparr>hsent := AList.update h (take i hlst @ drop (Suc i) hlst) (hsent st1),
               noans := noans st1 + 1\<rparr>
         else
           (if sentpkt \<notin> answered st1 then st1\<lparr>noans := noans st1 + 1\<rparr> else st1)
             \<lparr>answered := insert sentpkt (answered st1)\<rparr>)"

definition process_packet ::
  "('p \<Rightarrow> 'k) \<Rightarrow> ('p \<Rightarrow> 'p \<Rightarrow> bool) \<Rightarrow> 'p option \<Rightarrow> ('k, 'p) handler \<Rightarrow> ('k, 'p) handler" where
  "process_packet hashret answers r0 st =
     (case r0 of
        None \<Rightarrow> st
      | Some r \<Rightarrow>
          (let h = hashret r;
               res = (case map_of (hsent st) h of
                        None \<Rightarrow> (False, st)
                      | Some hlst \<Rightarrow>
                          (case first_answer (answers r) hlst of
                             None \<Rightarrow> (False, st)
                           | Some (i, sentpkt) \<Rightarrow> (True, record_match h hlst i sentpkt r st)));
               st2 = stop_sniffer_if_done (snd res)
           in if \<not> fst res then st2\<lparr>nbrecv := nbrecv st2 + 1\<rparr> else st2))"

text \<open>
  The pair that \<open>_process_packet\<close> records for a packet handed over by the sniffer, if it
  records one: the same lookup of the bucket and of its first answered stimulus, as a
  function of the table alone.
\<close>

definition paired_with ::
  "('p \<Rightarrow> 'k) \<Rightarrow> ('p \<Rightarrow> 'p \<Rightarrow> bool) \<Rightarrow> ('k \<times> 'p list) list \<Rightarrow> 'p option \<Rightarrow> ('p \<times> 'p) option" where
  "paired_with hashret answers d r0 =
     (case r0 of
        None \<Rightarrow> None
      | Some r \<Rightarrow>
          (case map_of d (hashret r) of
             None \<Rightarrow> None
           | Some hlst \<Rightarrow> map_option (\<lambda>(i, s). (s, r)) (first_answer (answers r) hlst)))"

text \<open>The dispatcher run on the replies that the sniffer hands over, in order.\<close>

definition process_packets ::
  "('p \<Rightarrow> 'k) \<Rightarrow> ('p \<Rightarrow> 'p \<Rightarrow> bool) \<Rightarrow> 'p option list \<Rightarrow> ('k, 'p) handler \<Rightarrow> ('k, 'p) handler" where
  "process_packets hashret answers rs st = foldl (\<lambda>s r. process_packet hashret answers r s) st rs"

subsection \<open>The sender: \<open>_sndrcv_snd\<close>\<close>

text \<open>
  What one pass meets outside the handler: \<open>pks_send p\<close> is the exception that
  \<open>self.pks.send(p)\<close> raises, if any; \<open>breakout_is_set i\<close> is the answer of
  \<open>self.breakout.is_set()\<close> after \<open>i\<close> stimuli have been sent completely; \<open>arrivals i\<close> are
  the packets that the sniffer hands to \<open>_process_packet\<close> after the stimulus of index \<open>i\<close>
  was sent and before the sender goes on (none in the non-threaded path, where the
  sender runs inside the sniffer's started callback); \<open>late_arrivals\<close> are those handed
  over once the sender loop has ended; \<open>breakout_at_end\<close> is \<open>breakout.is_set()\<close> at the
  end of the routine; \<open>interrupted\<close> says that the sniffer was left by
  \<open>KeyboardInterrupt\<close>.
\<close>

record 'p pass_env =
  pks_send :: "'p \<Rightarrow> exn option"
  breakout_is_set :: "nat \<Rightarrow> bool"
  arrivals :: "nat \<Rightarrow> 'p option list"
  late_arrivals :: "'p option list"
  breakout_at_end :: bool
  interrupted :: bool



text \<open>The \<open>finally\<close> block sets \<open>notans\<close> and \<open>_send_done\<close> on every path.\<close>

definition snd_finally :: "nat \<Rightarrow> ('k, 'p) handler \<Rightarrow> ('k, 'p) handler" where
  "snd_finally i st =
     st\<lparr>notans := (case flood st of
                      Some iterlen \<Rightarrow> iterlen
                    | None \<Rightarrow> (if \<not> send_done st then i else notans st)),
        send_done := True\<rparr>"

text \<open>
  After the \<open>try\<close> statement: \<open>_stop_sniffer_if_done\<close>, then in threaded mode with a
  timeout the wait on the breakout event and the \<open>stop\<close> of a sniffer that still runs.
\<close>

definition snd_wait :: "'p pass_env \<Rightarrow> ('k, 'p) handler \<Rightarrow> ('k, 'p) handler" where
  "snd_wait env st =
     (let st1 = stop_sniffer_if_done st
      in if threaded st1 \<and> timeout st1 \<noteq> None \<and> \<not> breakout_at_end env \<and> sniffer_running st1
         then st1\<lparr>sniffer_stops := sniffer_stops st1 + 1\<rparr>
         else st1)"


subsection \<open>The retry loop of \<open>__init__\<close>\<close>

text \<open>
  The attributes as \<open>__init__\<close> sets them before its loop, for a packet source that is a
  list (\<open>prebuild\<close>, or a source that is a list already). A negative timeout is no
  timeout.
\<close>

definition init_handler ::
  "'p list \<Rightarrow> int option \<Rightarrow> bool \<Rightarrow> bool \<Rightarrow> nat option \<Rightarrow> bool \<Rightarrow> bool \<Rightarrow> ('k, 'p) handler" where
  "init_handler pkt timeout0 chainCC0 multi0 flood0 threaded0 chainEX0 =
     \<lparr> multi = multi0, threaded = threaded0, chainEX = chainEX0, chainCC = chainCC0,
       timeout = (case timeout0 of
                    None \<Rightarrow> None
                  | Some t \<Rightarrow> (if t < 0 then None else Some t)),
       flood = flood0, tobesent = pkt, hsent = [], ans = [], nbrecv = 0, notans = 0,
       noans = 0, send_done = False, answered = {}, sniffer_running = False,
       sniffer_stops = 0, pks = [] \<rparr>"







section \<open>Concrete inputs\<close>


text \<open>
  Two environments of the parser. In both, decoding returns its argument and every
  search matches with the single group \<open>5\<close>; in the first the conversions return the
  matched text, in the second they raise \<open>ValueError\<close>.
\<close>

definition converting_env :: "string parse_env" where
  "converting_env =
     \<lparr> plain_str = Inr, re_search = (\<lambda>ts line. Some [''5'']), convert = (\<lambda>t g. Inr g) \<rparr>"

definition failing_env :: "string parse_env" where
  "failing_env =
     \<lparr> plain_str = Inr, re_search = (\<lambda>ts line. Some [''5'']),
       convert = (\<lambda>t g. Inl (Exception ''ValueError'')) \<rparr>"

text \<open>
  A sniff with \<open>count = 1\<close> that stores its packets and has a \<open>prn\<close> that returns \<open>None\<close>.
\<close>

definition count_one_args :: "nat sniff_args" where
  "count_one_args =
     \<lparr> arg_count = 1, arg_store = True, arg_prn = Some (\<lambda>_. None), arg_lfilter = None,
       arg_stop_filter = None, arg_chainCC = False, debug_dissector = 0 \<rparr>"


section \<open>Theorems\<close>

subsection \<open>Facts about the outstanding table\<close>


lemma pks_stop_sniffer_if_done [simp]: "pks (stop_sniffer_if_done st) = pks st"
  by (simp add: stop_sniffer_if_done_def)

lemma pks_record_match [simp]: "pks (record_match h hlst i s r st) = pks st"
  by (simp add: record_match_def Let_def)

lemma pks_process_packet [simp]: "pks (process_packet hashret answers r st) = pks st"
  by (simp add: process_packet_def Let_def split: option.splits prod.splits)

lemma pks_process_packets [simp]: "pks (process_packets hashret answers rs st) = pks st"
  unfolding process_packets_def
  by (induction rs arbitrary: st) simp_all


lemma snd_finally_fields [simp]:
  "hsent (snd_finally i st) = hsent st" "ans (snd_finally i st) = ans st"
  "multi (snd_finally i st) = multi st" "tobesent (snd_finally i st) = tobesent st"
  "answered (snd_finally i st) = answered st" "pks (snd_finally i st) = pks st"
  by (simp_all add: snd_finally_def)

lemma stop_sniffer_if_done_fields [simp]:
  "hsent (stop_sniffer_if_done st) = hsent st"
  "ans (stop_sniffer_if_done st) = ans st"
  "answered (stop_sniffer_if_done st) = answered st"
  "multi (stop_sniffer_if_done st) = multi st"
  "tobesent (stop_sniffer_if_done st) = tobesent st"
  "noans (stop_sniffer_if_done st) = noans st"
  by (simp_all add: stop_sniffer_if_done_def)

lemma snd_wait_fields [simp]:
  "hsent (snd_wait env st) = hsent st" "ans (snd_wait env st) = ans st"
  "multi (snd_wait env st) = multi st" "tobesent (snd_wait env st) = tobesent st"
  "answered (snd_wait env st) = answered st" "pks (snd_wait env st) = pks st"
  by (simp_all add: snd_wait_def Let_def)





lemma process_packet_fields [simp]:
  "multi (process_packet hashret answers r st) = multi st"
  "tobesent (process_packet hashret answers r st) = tobesent st"
  by (simp_all add: process_packet_def record_match_def Let_def split: option.splits prod.splits)

lemma process_packets_fields [simp]:
  "multi (process_packets hashret answers rs st) = multi st"
  "tobesent (process_packets hashret answers rs st) = tobesent st"
  unfolding process_packets_def
  by (induction rs arbitrary: st) simp_all






lemma process_packets_Cons:
  "process_packets hashret answers (r # rs) st
     = process_packets hashret answers rs (process_packet hashret answers r st)"
  by (simp add: process_packets_def)

lemma process_packets_Nil: "process_packets hashret answers [] st = st"
  by (simp add: process_packets_def)













subsection \<open>The sender records a stimulus before it sends it\<close>



subsection \<open>Single-answer mode: one reply per stimulus\<close>





subsection \<open>Multi-answer mode: one pair per reply, one count per stimulus\<close>

lemma process_packet_multi:
  assumes "multi st"
  shows "hsent (process_packet hashret answers r0 st) = hsent st"
    and "ans (process_packet hashret answers r0 st)
           = ans st @ (case paired_with hashret answers (hsent st) r0 of
                         None \<Rightarrow> [] | Some x \<Rightarrow> [x])"
    and "answered (process_packet hashret answers r0 st)
           = answered st \<union> (case paired_with hashret answers (hsent st) r0 of
                              None \<Rightarrow> {} | Some x \<Rightarrow> {fst x})"
    and "noans (process_packet hashret answers r0 st)
           = noans st + (case paired_with hashret answers (hsent st) r0 of
                          None \<Rightarrow> 0 | Some x \<Rightarrow> (if fst x \<in> answered st then 0 else 1))"
  using assms
  by (simp_all add: process_packet_def paired_with_def record_match_def Let_def
         split: option.split prod.split)

lemma card_insert_diff:
  assumes "finite F"
  shows "(if s \<in> A then 0 else 1) + card (F - insert s A) = card (insert s F - A)"
proof (cases "s \<in> A")
  case True
  then have "insert s A = A" "insert s F - A = F - A" by auto
  with True show ?thesis by simp
next
  case False
  then have "insert s F - A = insert s (F - insert s A)" by auto
  moreover have "s \<notin> F - insert s A" "finite (F - insert s A)" using assms by auto
  ultimately show ?thesis using False by simp
qed

lemma process_packets_multi:
  assumes "multi st"
  shows "hsent (process_packets hashret answers rs st) = hsent st
       \<and> ans (process_packets hashret answers rs st)
           = ans st @ List.map_filter (paired_with hashret answers (hsent st)) rs
       \<and> answered (process_packets hashret answers rs st)
           = answered st \<union> fst ` set (List.map_filter (paired_with hashret answers (hsent st)) rs)
       \<and> noans (process_packets hashret answers rs st)
           = noans st + card (fst ` set (List.map_filter (paired_with hashret answers (hsent st)) rs)
                               - answered st)"
  using assms
proof (induction rs arbitrary: st)
  case Nil
  then show ?case by (simp add: process_packets_Nil List.map_filter_simps)
next
  case (Cons r rs)
  let ?st1 = "process_packet hashret answers r st"
  let ?f = "paired_with hashret answers (hsent st)"
  let ?M = "List.map_filter ?f rs"
  note pm = process_packet_multi [OF Cons.prems, of hashret answers r]
  have m1: "multi ?st1" using Cons.prems by simp
  note ih = Cons.IH [OF m1, unfolded pm(1)]
  show ?case
  proof (cases "?f r")
    case None
    with pm have "ans ?st1 = ans st" "answered ?st1 = answered st" "noans ?st1 = noans st"
      by simp_all
    with ih None show ?thesis
      by (simp add: process_packets_Cons List.map_filter_simps)
  next
    case (Some x)
    with pm have a: "ans ?st1 = ans st @ [x]" "answered ?st1 = insert (fst x) (answered st)"
      "noans ?st1 = noans st + (if fst x \<in> answered st then 0 else 1)"
      by simp_all
    have c: "(if fst x \<in> answered st then 0 else 1) + card (fst ` set ?M - insert (fst x) (answered st))
          = card (insert (fst x) (fst ` set ?M) - answered st)"
      by (rule card_insert_diff) simp
    from ih a Some c show ?thesis
      by (simp add: process_packets_Cons List.map_filter_simps)
  qed
qed

text \<open>
  C3. In multi-answer mode the dispatcher leaves the table as it is, so the pairing of a
  reply depends on the table alone. Over any sequence of packets handed to it, the
  answered list grows by exactly one pair per reply that is paired (a stimulus paired
  with several replies gets one pair for each of them), every paired stimulus is marked
  \<open>_answered\<close>, and \<open>noans\<close> grows by the number of distinct stimuli that were paired and not
  marked before: one for the first match of a stimulus, nothing for its later matches.
\<close>

theorem multi_answer_noans_once:
  assumes "multi st"
  shows "let st' = process_packets hashret answers rs st;
             M = List.map_filter (paired_with hashret answers (hsent st)) rs
         in hsent st' = hsent st
            \<and> ans st' = ans st @ M
            \<and> answered st' = answered st \<union> fst ` set M
            \<and> noans st' = noans st + card (fst ` set M - answered st)"
  using process_packets_multi [OF assms, of hashret answers rs] by (simp add: Let_def)

theorem multi_answer_noans_once_witness:
  "multi ((init_handler [1] None False True None False False :: (nat, nat) handler)
            \<lparr>hsent := [(1, [1])]\<rparr>)
   \<and> List.map_filter (paired_with (\<lambda>p::nat. p mod 10) (\<lambda>(r::nat) s. r mod 10 = s) [(1, [1])])
        [Some 11, Some 21, None, Some 5] = [(1, 11), (1, 21)]
   \<and> ans (process_packets (\<lambda>p::nat. p mod 10) (\<lambda>(r::nat) s. r mod 10 = s)
        [Some 11, Some 21, None, Some 5]
        ((init_handler [1] None False True None False False :: (nat, nat) handler)
            \<lparr>hsent := [(1, [1])]\<rparr>)) = [(1, 11), (1, 21)]
   \<and> noans (process_packets (\<lambda>p::nat. p mod 10) (\<lambda>(r::nat) s. r mod 10 = s)
        [Some 11, Some 21, None, Some 5]
        ((init_handler [1] None False True None False False :: (nat, nat) handler)
            \<lparr>hsent := [(1, [1])]\<rparr>)) = 1
   \<and> hsent (process_packets (\<lambda>p::nat. p mod 10) (\<lambda>(r::nat) s. r mod 10 = s)
        [Some 11, Some 21, None, Some 5]
        ((init_handler [1] None False True None False False :: (nat, nat) handler)
            \<lparr>hsent := [(1, [1])]\<rparr>)) = [(1, [1])]"
proof -
  let ?st = "(init_handler [1] None False True None False False :: (nat, nat) handler)
            \<lparr>hsent := [(1, [1])]\<rparr>"
  have m: "multi ?st" by (simp add: init_handler_def)
  have M: "List.map_filter (paired_with (\<lambda>p::nat. p mod 10) (\<lambda>(r::nat) s. r mod 10 = s) [(1, [1])])
        [Some 11, Some 21, None, Some 5] = [(1, 11), (1, 21)]"
    by (simp add: List.map_filter_simps paired_with_def)
  have f: "hsent ?st = [(1, [1])]" "ans ?st = []" "noans ?st = 0" "answered ?st = {}"
    by (simp_all add: init_handler_def)
  from multi_answer_noans_once [OF m, of "\<lambda>p::nat. p mod 10" "\<lambda>(r::nat) s. r mod 10 = s"
         "[Some 11, Some 21, None, Some 5]"]
  show ?thesis unfolding Let_def f M using m M by simp
qed

subsection \<open>Autostop: the retry budget and the number of passes\<close>















subsection \<open>The send engine traverses its source as often as asked\<close>

lemma gen_send_pass_ok:
  "\<forall>n p. s n p = None \<Longrightarrow> gen_send_pass s x n out = (None, n + length x, out @ x)"
  by (induction x arbitrary: n out) simp_all

lemma gen_send_loop_negative:
  assumes "\<forall>n p. s n p = None"
  shows "gen_send_loop s x (- int k) n out
           = Some (None, n + k * length x, out @ concat (replicate k x))"
proof (induction k arbitrary: n out)
  case 0
  show ?case by (subst gen_send_loop.simps) simp
next
  case (Suc k)
  have "gen_send_loop s x (- int (Suc k)) n out
          = gen_send_loop s x (- int k) (n + length x) (out @ x)"
    by (subst gen_send_loop.simps) (simp add: gen_send_pass_ok [OF assms])
  then show ?case by (simp add: Suc.IH)
qed

text \<open>
  C8. In \<open>__gen_send\<close>, over a socket whose \<open>send\<close> does not raise and for every finite
  packet source \<open>x\<close>: with \<open>count = N\<close> (a number of times, so \<open>N \<ge> 0\<close>) the source is
  traversed exactly \<open>N\<close> times, whatever
  \<open>loop\<close> is (\<open>count\<close> overrides it as \<open>-count\<close>); with \<open>loop = 0\<close> and no count it is traversed
  once; with \<open>loop = -m\<close> (\<open>m > 0\<close>) and no count it is traversed \<open>m\<close> times. The function
  returns, the socket has sent the packets of each traversal once and in source order,
  and with \<open>return_packets\<close> the returned list is that sequence.
\<close>

theorem gen_send_traversals:
  assumes "\<forall>n p. s n p = None" and "0 < m"
  shows "gen_send s x loop (Some (int N)) return_packets
           = Some (Inr (if return_packets then Some (concat (replicate N x)) else None),
                   concat (replicate N x))
       \<and> gen_send s x 0 None return_packets
           = Some (Inr (if return_packets then Some x else None), x)
       \<and> gen_send s x (- int m) None return_packets
           = Some (Inr (if return_packets then Some (concat (replicate m x)) else None),
                   concat (replicate m x))"
proof -
  have a: "gen_send_loop s x (- int N) 0 [] = Some (None, N * length x, concat (replicate N x))"
    using gen_send_loop_negative [OF assms(1), of x N 0 "[]"] by simp
  have b: "gen_send_loop s x (- 1) 0 [] = Some (None, length x, x)"
    using gen_send_loop_negative [OF assms(1), of x 1 0 "[]"] by simp
  have c: "gen_send_loop s x (- int m) 0 [] = Some (None, m * length x, concat (replicate m x))"
    using gen_send_loop_negative [OF assms(1), of x m 0 "[]"] by simp
  have m: "- int m \<noteq> 0" using assms(2) by simp
  show ?thesis using a b c m by (simp add: gen_send_def Let_def)
qed

theorem gen_send_traversals_witness:
  "(\<forall>n p. (\<lambda>(n::nat) (p::nat). None :: exn option) n p = None) \<and> (0::nat) < 2
   \<and> gen_send (\<lambda>n p. None) [1, 2 :: nat] 5 (Some 3) True
        = Some (Inr (Some [1, 2, 1, 2, 1, 2]), [1, 2, 1, 2, 1, 2])
   \<and> gen_send (\<lambda>n p. None) [1, 2 :: nat] 0 None False = Some (Inr None, [1, 2])
   \<and> gen_send (\<lambda>n p. None) [1, 2 :: nat] (- 2) None True
        = Some (Inr (Some [1, 2, 1, 2]), [1, 2, 1, 2])"
proof -
  have h: "\<forall>n p. (\<lambda>(n::nat) (p::nat). None :: exn option) n p = None" by simp
  have k: "(0::nat) < 2" by simp
  from gen_send_traversals [OF h k, of "[1, 2]" 5 3 True]
       gen_send_traversals [OF h k, of "[1, 2]" 5 3 False]
  show ?thesis by (simp add: numeral_2_eq_2 numeral_3_eq_3)
qed

subsection \<open>The flood generator stops one cycle early\<close>

lemma flood_cycle_never_stopped:
  "flood_cycle (\<lambda>_. False) ps j out = (False, j + length ps, out @ ps)"
  by (induction ps arbitrary: j out) simp_all

lemma flood_iter_never_stopped:
  assumes "0 \<le> i" "i < k"
  shows "flood_iter (Some k) (\<lambda>_. False) pkts i iterlen out
           = Some (out @ concat (replicate (nat (k - i - 1)) pkts),
                   if iterlen = 0 \<and> i + 1 < k then length pkts else iterlen)"
  using assms
proof (induction "nat (k - i - 1)" arbitrary: i iterlen out)
  case 0
  then have "k = i + 1" by simp
  with "0.prems" show ?case by (subst flood_iter.simps) simp
next
  case (Suc d)
  then have lt: "i + 1 < k" and d: "d = nat (k - (i + 1) - 1)" by simp_all
  have n: "nat (k - i - 1) = Suc (nat (k - (i + 1) - 1))" using lt by simp
  have "flood_iter (Some k) (\<lambda>_. False) pkts i iterlen out
          = flood_iter (Some k) (\<lambda>_. False) pkts (i + 1) (if iterlen = 0 then length pkts else iterlen)
              (out @ pkts)"
    using lt Suc.prems by (subst flood_iter.simps) (simp add: flood_cycle_never_stopped)
  also have "\<dots> = Some ((out @ pkts) @ concat (replicate (nat (k - (i + 1) - 1)) pkts),
                   if (if iterlen = 0 then length pkts else iterlen) = 0 \<and> i + 1 + 1 < k
                   then length pkts else (if iterlen = 0 then length pkts else iterlen))"
    using Suc.hyps(1) [OF d _ lt] Suc.prems by simp
  finally show ?case using lt n by auto
qed

lemma FloodGenerator_cycles:
  "1 \<le> k \<Longrightarrow> FloodGenerator pkts (Some k) (\<lambda>_. False)
      = Some (concat (replicate (nat (k - 1)) pkts), if 1 < k then length pkts else 0)"
  using flood_iter_never_stopped [of 0 k pkts 0 "[]"] by (simp add: FloodGenerator_def)

text \<open>
  C6. The claim is that with \<open>maxretries = k \<ge> 1\<close> and the stop event never set the flood
  generator yields \<open>k\<close> complete cycles of its iterable, and that \<open>iterlen\<close> is the length of
  one cycle after the first one. The code tests \<open>i >= self.maxretries\<close> after \<open>i += 1\<close>, at
  the start of each cycle, so it yields \<open>k - 1\<close> cycles (\<open>FloodGenerator_cycles\<close>). On the
  iterable \<open>[1, 2]\<close>: with \<open>maxretries = 1\<close> nothing is yielded and \<open>iterlen\<close> stays 0; with
  \<open>maxretries = 3\<close> two cycles are yielded.
\<close>

theorem FloodGenerator_maxretries_one_yields_nothing:
  "FloodGenerator [1, 2 :: nat] (Some 1) (\<lambda>_. False) = Some ([], 0)
   \<and> FloodGenerator [1, 2 :: nat] (Some 3) (\<lambda>_. False) = Some ([1, 2, 1, 2], 2)"
  by (simp add: FloodGenerator_def flood_iter.simps)

subsection \<open>The bridge forwards what the transform returns\<close>

lemma prn_send_transform:
  assumes "peers l = Some sendsock" "xfrms l = Some xfrm"
  shows "xfrm pkt = Inr (RBool True) \<Longrightarrow>
           prn_send peers xfrms (\<lambda>s v. False) pkt (Some l) = [Send sendsock (Some pkt)]"
    and "xfrm pkt = Inr (RBool False) \<Longrightarrow> prn_send peers xfrms send_raises pkt (Some l) = []"
    and "xfrm pkt = Inr (RPacket q) \<Longrightarrow>
           prn_send peers xfrms (\<lambda>s v. False) pkt (Some l) = [Send sendsock (Some q)]"
    and "xfrm pkt = Inr RNone \<Longrightarrow>
           prn_send peers xfrms (\<lambda>s v. False) pkt (Some l) = [Send sendsock None]"
  using assms by (simp_all add: prn_send_def Let_def)


subsection \<open>The parser of the replay tool's output and its failures\<close>

lemma parse_body_keys:
  assumes "parse_body env stdout_b stderr_b argv = Inr res"
  shows "res ''command'' = Some (Str (join_with '' '' argv))"
    and "\<exists>w. res ''warnings'' = Some (StrList w)"
  using assms
  by (auto simp: parse_body_def Let_def split: sum.splits)

text \<open>
  C9. When the body of \<open>_parse_tcpreplay_result\<close> raises an exception of class
  \<open>Exception\<close> on its input: with \<open>conf.interactive\<close> set the function logs the error and
  returns an empty map, and without it the same exception is raised again. When the body
  ends without an exception the function returns its map, and the map has the key
  \<open>command\<close>, bound to the arguments joined by spaces, and the key \<open>warnings\<close>, bound to a
  list of lines.
\<close>

theorem parse_tcpreplay_result_handling:
  "(parse_body env stdout_b stderr_b argv = Inl e \<and> e \<noteq> KeyboardInterrupt \<and> e \<noteq> SystemExit \<longrightarrow>
      parse_tcpreplay_result True env stdout_b stderr_b argv
        = (Inr Map.empty, [''Error parsing output''])
      \<and> parse_tcpreplay_result False env stdout_b stderr_b argv = (Inl e, []))
   \<and> (parse_body env stdout_b stderr_b argv = Inr res \<longrightarrow>
        parse_tcpreplay_result interactive env stdout_b stderr_b argv = (Inr res, [])
        \<and> res ''command'' = Some (Str (join_with '' '' argv))
        \<and> (\<exists>w. res ''warnings'' = Some (StrList w)))"
proof (intro conjI impI)
  assume a: "parse_body env stdout_b stderr_b argv = Inl e \<and> e \<noteq> KeyboardInterrupt \<and> e \<noteq> SystemExit"
  then show "parse_tcpreplay_result True env stdout_b stderr_b argv
        = (Inr Map.empty, [''Error parsing output''])"
    by (cases e) (simp_all add: parse_tcpreplay_result_def)
  from a show "parse_tcpreplay_result False env stdout_b stderr_b argv = (Inl e, [])"
    by (cases e) (simp_all add: parse_tcpreplay_result_def)
next
  assume b: "parse_body env stdout_b stderr_b argv = Inr res"
  then show "parse_tcpreplay_result interactive env stdout_b stderr_b argv = (Inr res, [])"
    by (simp add: parse_tcpreplay_result_def)
  from parse_body_keys [OF b]
  show "res ''command'' = Some (Str (join_with '' '' argv))"
    and "\<exists>w. res ''warnings'' = Some (StrList w)" by simp_all
qed

theorem parse_tcpreplay_result_handling_witness:
  "parse_body failing_env ''Attempted: 5'' ''Warning: x'' [''tcpreplay'', ''--intf1=eth0'']
     = Inl (Exception ''ValueError'')
   \<and> parse_tcpreplay_result True failing_env ''Attempted: 5'' ''Warning: x''
        [''tcpreplay'', ''--intf1=eth0''] = (Inr Map.empty, [''Error parsing output''])
   \<and> parse_tcpreplay_result False failing_env ''Attempted: 5'' ''Warning: x''
        [''tcpreplay'', ''--intf1=eth0''] = (Inl (Exception ''ValueError''), [])
   \<and> (\<exists>m. parse_body converting_env ''Attempted: 5'' ''Warning: x'' [''tcpreplay'', ''--intf1=eth0'']
             = Inr m
          \<and> parse_tcpreplay_result False converting_env ''Attempted: 5'' ''Warning: x''
               [''tcpreplay'', ''--intf1=eth0''] = (Inr m, [])
          \<and> m ''attempted'' = Some (Number ''5'')
          \<and> m ''command'' = Some (Str ''tcpreplay --intf1=eth0'')
          \<and> (\<exists>w. m ''warnings'' = Some (StrList w)))"
proof -
  let ?argv = "[''tcpreplay'', ''--intf1=eth0'']"
  have f: "parse_body failing_env ''Attempted: 5'' ''Warning: x'' ?argv
             = Inl (Exception ''ValueError'')"
    by (simp add: parse_body_def failing_env_def lower_def strip_def isspace_def Let_def
          elements_def startswith_def multi_names_def)
  have "\<exists>m. parse_body converting_env ''Attempted: 5'' ''Warning: x'' ?argv = Inr m
           \<and> m ''attempted'' = Some (Number ''5'')"
    by (simp add: parse_body_def converting_env_def lower_def strip_def isspace_def Let_def
          elements_def startswith_def multi_names_def)
  then obtain m where m: "parse_body converting_env ''Attempted: 5'' ''Warning: x'' ?argv = Inr m"
    "m ''attempted'' = Some (Number ''5'')" by blast
  from parse_tcpreplay_result_handling
         [of failing_env "''Attempted: 5''" "''Warning: x''" ?argv "Exception ''ValueError''"]
       f
  have 1: "parse_tcpreplay_result True failing_env ''Attempted: 5'' ''Warning: x'' ?argv
             = (Inr Map.empty, [''Error parsing output''])"
    "parse_tcpreplay_result False failing_env ''Attempted: 5'' ''Warning: x'' ?argv
             = (Inl (Exception ''ValueError''), [])"
    by simp_all
  from parse_tcpreplay_result_handling
         [of converting_env "''Attempted: 5''" "''Warning: x''" ?argv _ m False] m(1)
  have 2: "parse_tcpreplay_result False converting_env ''Attempted: 5'' ''Warning: x'' ?argv
             = (Inr m, [])"
    "m ''command'' = Some (Str ''tcpreplay --intf1=eth0'')"
    "\<exists>w. m ''warnings'' = Some (StrList w)"
    by simp_all
  from f 1 2 m show ?thesis by blast
qed

subsection \<open>The count quota and the sockets of one select call\<close>

text \<open>
  C4. The claim is that a sniff with \<open>count = N > 0\<close> ends after exactly \<open>N\<close> accepted
  packets, and that once the quota or \<open>stop_filter\<close> fires no further packet of the same
  \<open>select\<close> batch is counted, stored or passed to \<open>prn\<close>. The \<open>break\<close> that follows the
  test leaves only the loop over the packets of one socket. With \<open>count = 1\<close> and two
  sockets that \<open>select\<close> returns ready together, each with one packet, the packet of the
  second socket is counted, stored and passed to \<open>prn\<close> as well: the sniffer ends with
  \<open>count = 2\<close> and two results. (With both packets on one socket the second one is left
  alone: the sniffer ends with \<open>count = 1\<close>.) The same happens without a quota when
  \<open>stop_filter\<close> fires on the packet of the first socket.
\<close>

theorem sniff_count_overrun_across_sockets:
  "map_option (\<lambda>(e, st). (e, count st, results st, prn_calls st))
     (sniff_run count_one_args [(1::nat, ''eth0''), (2, ''eth1'')] False
        [Ready [(Socket 1, [10], Exhausted), (Socket 2, [20], Exhausted)]] sniffer_init)
     = Some (None, 2, Some [(10, Some ''eth0''), (20, Some ''eth1'')],
             [(10, Some ''eth0''), (20, Some ''eth1'')])
   \<and> map_option (\<lambda>(e, st). (e, count st, results st, prn_calls st))
     (sniff_run count_one_args [(1::nat, ''eth0''), (2, ''eth1'')] False
        [Ready [(Socket 1, [10, 11], Exhausted)]] sniffer_init)
     = Some (None, 1, Some [(10, Some ''eth0'')], [(10, Some ''eth0'')])
   \<and> map_option (\<lambda>(e, st). (e, count st, results st, prn_calls st))
     (sniff_run (count_one_args\<lparr>arg_count := 0, arg_stop_filter := Some (\<lambda>p. p = 10)\<rparr>)
        [(1::nat, ''eth0''), (2, ''eth1'')] False
        [Ready [(Socket 1, [10], Exhausted), (Socket 2, [20], Exhausted)]] sniffer_init)
     = Some (None, 2, Some [(10, Some ''eth0''), (20, Some ''eth1'')],
             [(10, Some ''eth0''), (20, Some ''eth1'')])"
  by (simp add: sniff_run_def count_one_args_def sniffer_init_def sniffer.extend_def
        sniff_frame.fields_def Let_def)

subsection \<open>Stopping a sniffer that does not run\<close>

text \<open>
  C10. \<open>AsyncSniffer.stop()\<close> on a sniffer whose \<open>running\<close> flag is False (before start,
  or after the run has ended) raises \<open>Scapy_Exception\<close> with the message
  "Not running ! (check .running attr)", whatever \<open>join\<close> is, and leaves every attribute
  of the sniffer (results, thread and the others) as it was.
\<close>

theorem stop_not_running:
  "\<not> running s \<Longrightarrow>
     stop worker do_join s = (Inl (Scapy_Exception ''Not running ! (check .running attr)''), s)"
  by (simp add: stop_def)

theorem stop_not_running_witness:
  "\<not> running (sniffer_init :: nat sniffer) \<and>
   stop (\<lambda>s. s) True (sniffer_init :: nat sniffer) =
     (Inl (Scapy_Exception ''Not running ! (check .running attr)''), sniffer_init)"
  using stop_not_running [of "sniffer_init :: nat sniffer" "\<lambda>s. s" True]
  by (simp add: sniffer_init_def)

end
